theory Spec2Isabelle
  imports Complex_Main
begin

section \<open>Loan default prediction: feature engineering, risk policy, batch scoring\<close>

text \<open>
  A shallow embedding of \<^verbatim>\<open>enhanced_api.py\<close>: the request model
  \<^verbatim>\<open>LoanApplication\<close>, \<^verbatim>\<open>add_feature_engineering\<close> (the same function
  stands in \<^verbatim>\<open>advanced_train.py\<close>, \<^verbatim>\<open>final_validation.py\<close> and
  \<^verbatim>\<open>predict_api/app.py\<close>), and the endpoints \<^verbatim>\<open>predict\<close> and
  \<^verbatim>\<open>batch_predict\<close>.

  Numbers. A Python \<^verbatim>\<open>int\<close> field is an \<^typ>\<open>int\<close> (taken inside the int64
  range, so that the frame's columns are numeric). A \<^verbatim>\<open>float\<close> field of a request
  is a finite float64 value and is a \<^typ>\<open>real\<close>: the rounding of a result to 53
  bits is not modelled. What the model does keep of IEEE arithmetic is the range of
  float64 and that a division never raises in a pandas column: a zero divisor gives
  \<^verbatim>\<open>inf\<close>, \<^verbatim>\<open>-inf\<close> or \<^verbatim>\<open>nan\<close>, a quotient beyond the range overflows to
  \<^verbatim>\<open>inf\<close> or \<^verbatim>\<open>-inf\<close>, and a quotient below the smallest subnormal underflows
  to zero. A computed float column is therefore a \<open>float64\<close>, a finite number or the
  one value \<open>NonFinite\<close> that stands for \<^verbatim>\<open>inf\<close>, \<^verbatim>\<open>-inf\<close> and \<^verbatim>\<open>nan\<close>.
\<close>

subsection \<open>The request record\<close>

record LoanApplication =
  age :: int
  annual_income :: real
  employment_length :: int
  home_ownership :: string
  purpose :: string
  loan_amount :: real
  term_months :: int
  interest_rate :: real
  dti :: real
  credit_score :: real
  delinquency_2yrs :: int
  num_open_acc :: int

subsection \<open>Column arithmetic of pandas\<close>

datatype float64 = Finite real | NonFinite

text \<open>
  The range of float64 under round-to-nearest-even. The largest finite value is
  \<open>2^1024 - 2^971\<close>; an exact result of magnitude \<open>2^1024 - 2^970\<close> or more (half a
  unit in the last place above it) rounds to infinity. The smallest subnormal is
  \<open>2^-1074\<close>; an exact result of magnitude \<open>2^-1075\<close> or less rounds to zero.
\<close>

definition overflow_bound :: real where
  "overflow_bound = 2 ^ 1024 - 2 ^ 970"

definition underflow_bound :: real where
  "underflow_bound = 1 / 2 ^ 1075"

text \<open>
  The float64 that an operation returns when its exact result is \<open>q\<close>: non-finite on
  overflow, zero on underflow, and otherwise \<open>q\<close>, taken unrounded.
\<close>

definition float64_result :: "real \<Rightarrow> float64" where
  "float64_result q =
     (if overflow_bound \<le> \<bar>q\<bar> then NonFinite
      else if \<bar>q\<bar> \<le> underflow_bound then Finite 0
      else Finite q)"

text \<open>
  \<open>truediv x d\<close> is \<^verbatim>\<open>x / d\<close> on float columns with a finite divisor \<open>d\<close>.
  A finite dividend over zero is \<^verbatim>\<open>inf\<close>, \<^verbatim>\<open>-inf\<close> or \<^verbatim>\<open>nan\<close>; a
  non-finite dividend over a finite divisor stays non-finite.
\<close>

fun truediv :: "float64 \<Rightarrow> real \<Rightarrow> float64" where
  "truediv (Finite a) d = (if d = 0 then NonFinite else float64_result (a / d))"
| "truediv NonFinite d = NonFinite"

text \<open>
  \<^verbatim>\<open>x / c\<close> for a finite column and a constant \<open>c\<close> with \<open>\<bar>c\<bar> \<ge> 1\<close>: the quotient
  is no larger than \<open>x\<close>, so it is finite; it is zero when it underflows.
\<close>

definition truediv_const :: "real \<Rightarrow> real \<Rightarrow> real" where
  "truediv_const x c = (if \<bar>x / c\<bar> \<le> underflow_bound then 0 else x / c)"

text \<open>\<^verbatim>\<open>(cond).astype(int)\<close>: a boolean column as 0 and 1.\<close>

definition astype_int :: "bool \<Rightarrow> int" where
  "astype_int b = (if b then 1 else 0)"

text \<open>
  \<^verbatim>\<open>Series.median()\<close> of a column of finite numbers: the middle element of the
  sorted column, the mean of the two middle elements when the length is even, and
  \<^verbatim>\<open>nan\<close> (here \<open>None\<close>) for an empty column.
\<close>

definition median :: "real list \<Rightarrow> real option" where
  "median xs =
     (let s = sort xs; n = length s in
      if n = 0 then None
      else if odd n then Some (s ! (n div 2))
      else Some ((s ! (n div 2 - 1) + s ! (n div 2)) / 2))"

text \<open>\<^verbatim>\<open>x > m\<close> where \<open>m\<close> may be \<^verbatim>\<open>nan\<close>: every comparison with \<^verbatim>\<open>nan\<close> is false.\<close>

fun gt_median :: "real \<Rightarrow> real option \<Rightarrow> bool" where
  "gt_median x None = False"
| "gt_median x (Some m) = (m < x)"

text \<open>
  \<^verbatim>\<open>pd.cut(x, bins, labels, include_lowest=True)\<close> with the default
  \<^verbatim>\<open>right=True\<close>, for one value. pandas computes
  \<^verbatim>\<open>ids = bins.searchsorted(x, side="left")\<close>, the number of edges strictly below
  \<open>x\<close>; sets \<open>ids\<close> to 1 where \<open>x\<close> equals the first edge; and yields the missing
  value where \<open>ids\<close> is 0 or \<open>len(bins)\<close>, the label \<open>ids - 1\<close> otherwise.
\<close>

definition searchsorted_left :: "real list \<Rightarrow> real \<Rightarrow> nat" where
  "searchsorted_left bins x = length (takeWhile (\<lambda>b. b < x) bins)"

definition pd_cut :: "real \<Rightarrow> real list \<Rightarrow> string list \<Rightarrow> string option" where
  "pd_cut x bins labels =
     (let ids = searchsorted_left bins x;
          ids = (if x = hd bins then 1 else ids)
      in if ids = length bins \<or> ids = 0 then None else Some (labels ! (ids - 1)))"

subsection \<open>Feature engineering\<close>

record Engineered = LoanApplication +
  income_to_loan_ratio :: float64
  employment_risk :: int
  credit_score_binned :: "string option"
  monthly_payment :: float64
  payment_to_income_ratio :: float64
  high_interest :: int
  young_borrower :: int
  experienced_worker :: int
  high_credit_score :: int
  multiple_delinquencies :: int
  many_open_accounts :: int
  risk_score :: int

text \<open>
  One row of the frame after \<^verbatim>\<open>add_feature_engineering\<close>; \<open>med_ir\<close> and \<open>med_oa\<close>
  are \<^verbatim>\<open>df['interest_rate'].median()\<close> and \<^verbatim>\<open>df['num_open_acc'].median()\<close> of the
  frame the row stands in. The divisor \<^verbatim>\<open>annual_income / 12\<close> is finite, and zero
  when \<^verbatim>\<open>annual_income\<close> is zero or so small that the quotient underflows.
\<close>

definition engineer_row :: "real option \<Rightarrow> real option \<Rightarrow> LoanApplication \<Rightarrow> Engineered" where
  "engineer_row med_ir med_oa r =
     (let income_to_loan_ratio' = truediv (Finite (annual_income r)) (loan_amount r);
          employment_risk' = astype_int (employment_length r < 2);
          credit_score_binned' =
            pd_cut (credit_score r) [0, 580, 670, 740, 850]
              [''Poor'', ''Fair'', ''Good'', ''Excellent''];
          monthly_payment' = truediv (Finite (loan_amount r)) (of_int (term_months r));
          payment_to_income_ratio' =
            truediv monthly_payment' (truediv_const (annual_income r) 12);
          high_interest' = astype_int (gt_median (interest_rate r) med_ir);
          young_borrower' = astype_int (age r < 30);
          experienced_worker' = astype_int (employment_length r > 10);
          high_credit_score' = astype_int (credit_score r > 750);
          multiple_delinquencies' = astype_int (delinquency_2yrs r > 1);
          many_open_accounts' = astype_int (gt_median (of_int (num_open_acc r)) med_oa);
          risk_factors = [employment_risk', high_interest', young_borrower',
                          multiple_delinquencies', many_open_accounts']
      in LoanApplication.extend r
           (Engineered.fields income_to_loan_ratio' employment_risk' credit_score_binned'
              monthly_payment' payment_to_income_ratio' high_interest' young_borrower'
              experienced_worker' high_credit_score' multiple_delinquencies'
              many_open_accounts' (sum_list risk_factors)))"

text \<open>
  \<^verbatim>\<open>add_feature_engineering(df)\<close>: the frame is the list of its rows. The two
  medians are taken over the columns of the frame that was passed in.
\<close>

definition add_feature_engineering :: "LoanApplication list \<Rightarrow> Engineered list" where
  "add_feature_engineering df =
     map (engineer_row (median (map interest_rate df))
                       (median (map (\<lambda>r. of_int (num_open_acc r)) df))) df"

subsection \<open>The classifier and the module's globals\<close>

text \<open>
  An exception raised inside the \<^verbatim>\<open>try\<close> block of \<^verbatim>\<open>predict\<close>: by the loaded
  model (with its message), or by the format specification \<^verbatim>\<open>:.3f\<close> applied to a
  value that is not a number (\<^verbatim>\<open>ValueError\<close> for a string, \<^verbatim>\<open>TypeError\<close> for
  \<^verbatim>\<open>None\<close>, a list or a dict).
\<close>

datatype exception = Model_exception string | Format_exception

text \<open>
  The detail of an \<^verbatim>\<open>HTTPException\<close>: \<^verbatim>\<open>"Model not loaded on server"\<close>,
  \<^verbatim>\<open>f"Prediction error: {str(e)}"\<close> and \<^verbatim>\<open>"Maximum 100 applications per batch"\<close>.
\<close>

datatype detail = Model_not_loaded | Prediction_error exception | Maximum_100_applications

datatype http_exception = HTTPException (status_code: nat) (detail: detail)

text \<open>
  The loaded model is outside the repository (an mlflow artefact); it is a parameter.
  \<open>predict_proba m df\<close> is \<^verbatim>\<open>float(model.predict_proba(df)[0][1])\<close> and
  \<open>model_predict m df\<close> is \<^verbatim>\<open>int(model.predict(df)[0])\<close>; either may raise.
\<close>

record Model =
  predict_proba :: "Engineered list \<Rightarrow> exception + real"
  model_predict :: "Engineered list \<Rightarrow> exception + int"

text \<open>A value read by \<^verbatim>\<open>json.load\<close> from \<^verbatim>\<open>tuning_results.json\<close>.\<close>

datatype json = JNumber real | JBool bool | JString string | JNull
  | JArray "json list" | JObject "(string \<times> json) list"

text \<open>
  Whether \<^verbatim>\<open>f"{v:.3f}"\<close> formats \<open>v\<close>: numbers do (a \<^verbatim>\<open>bool\<close> is an
  \<^verbatim>\<open>int\<close> in Python), everything else raises.
\<close>

fun formats_3f :: "json \<Rightarrow> bool" where
  "formats_3f (JNumber x) = True"
| "formats_3f (JBool b) = True"
| "formats_3f v = False"

text \<open>
  The globals that \<^verbatim>\<open>load_model\<close> sets at startup: \<^verbatim>\<open>model\<close> (\<open>None\<close> when
  loading failed) and the dictionary \<^verbatim>\<open>model_info\<close>.
\<close>

record Globals =
  model :: "Model option"
  model_info :: "string \<rightharpoonup> json"

text \<open>\<^verbatim>\<open>model_info.get(key, default)\<close>.\<close>

definition dict_get :: "(string \<rightharpoonup> json) \<Rightarrow> string \<Rightarrow> json \<Rightarrow> json" where
  "dict_get d k dflt = (case d k of None \<Rightarrow> dflt | Some v \<Rightarrow> v)"

subsection \<open>Scoring one application\<close>

text \<open>The chain \<^verbatim>\<open>if default_probability >= 0.8 ... else\<close>: risk level and colour.\<close>

definition risk_classification :: "real \<Rightarrow> string \<times> string" where
  "risk_classification default_probability =
     (if default_probability \<ge> 0.8 then (''Very High'', ''red'')
      else if default_probability \<ge> 0.6 then (''High'', ''orange'')
      else if default_probability \<ge> 0.4 then (''Medium'', ''yellow'')
      else if default_probability \<ge> 0.2 then (''Low'', ''lightgreen'')
      else (''Very Low'', ''green''))"

text \<open>The recommendation logic: recommendation and confidence.\<close>

definition recommendation_logic :: "int \<Rightarrow> real \<Rightarrow> string \<times> string" where
  "recommendation_logic binary_prediction default_probability =
     (if binary_prediction = 1 then
        (''Reject'', if default_probability > 0.7 then ''High'' else ''Medium'')
      else if default_probability < 0.1 then (''Approve'', ''High'')
      else if default_probability < 0.3 then (''Approve with monitoring'', ''Medium'')
      else (''Further review required'', ''Low''))"

record RiskFactors =
  rf_employment_risk :: bool
  rf_high_interest :: bool
  rf_young_borrower :: bool
  rf_multiple_delinquencies :: bool
  rf_many_open_accounts :: bool

text \<open>
  The dictionary \<^verbatim>\<open>predict\<close> returns, without the entries that only render numbers
  (the rounded probability and ratios, the percentage, the reasoning sentence and the
  \<^verbatim>\<open>model_info\<close> block).
\<close>

record Response =
  binary_prediction :: int
  prediction_label :: string
  risk_level :: string
  risk_color :: string
  confidence :: string
  decision :: string
  fa_risk_score :: int
  credit_score_category :: string
  risk_factors :: RiskFactors

text \<open>\<^verbatim>\<open>str\<close> of a category value: its label, \<^verbatim>\<open>'nan'\<close> when it is missing.\<close>

definition str_category :: "string option \<Rightarrow> string" where
  "str_category c = (case c of None \<Rightarrow> ''nan'' | Some l \<Rightarrow> l)"

text \<open>
  \<^verbatim>\<open>predict(application)\<close>. The check of \<^verbatim>\<open>model\<close> stands before the
  \<^verbatim>\<open>try\<close>; every exception inside it becomes an \<^verbatim>\<open>HTTPException\<close> with status
  400. The last thing that can raise is the format of
  \<^verbatim>\<open>model_info.get('best_score', 0.946)\<close> while the returned dictionary is built.
\<close>

definition predict :: "Globals \<Rightarrow> LoanApplication \<Rightarrow> http_exception + Response" where
  "predict g application =
     (case model g of
        None \<Rightarrow> Inl (HTTPException 500 Model_not_loaded)
      | Some m \<Rightarrow>
         (let df = add_feature_engineering [application] in
          case predict_proba m df of
            Inl e \<Rightarrow> Inl (HTTPException 400 (Prediction_error e))
          | Inr default_probability \<Rightarrow>
             (case model_predict m df of
                Inl e \<Rightarrow> Inl (HTTPException 400 (Prediction_error e))
              | Inr binary_prediction' \<Rightarrow>
                 (let (risk_level', risk_color') = risk_classification default_probability;
                      (recommendation, confidence') =
                         recommendation_logic binary_prediction' default_probability;
                      row = df ! 0
                  in if \<not> formats_3f (dict_get (model_info g) ''best_score'' (JNumber 0.946))
                     then Inl (HTTPException 400 (Prediction_error Format_exception))
                     else Inr \<lparr>binary_prediction = binary_prediction',
                            prediction_label =
                              (if binary_prediction' = 1 then ''Default'' else ''No Default''),
                            risk_level = risk_level',
                            risk_color = risk_color',
                            confidence = confidence',
                            decision = recommendation,
                            fa_risk_score = risk_score row,
                            credit_score_category = str_category (credit_score_binned row),
                            risk_factors =
                              \<lparr>rf_employment_risk = (employment_risk row \<noteq> 0),
                               rf_high_interest = (high_interest row \<noteq> 0),
                               rf_young_borrower = (young_borrower row \<noteq> 0),
                               rf_multiple_delinquencies = (multiple_delinquencies row \<noteq> 0),
                               rf_many_open_accounts = (many_open_accounts row \<noteq> 0)\<rparr>\<rparr>))))"

subsection \<open>Scoring a batch\<close>

text \<open>
  One entry of \<^verbatim>\<open>results\<close>: \<^verbatim>\<open>{"application_id", "status": "success", "result"}\<close>
  or \<^verbatim>\<open>{"application_id", "status": "error", "error"}\<close>. The error entry keeps the
  exception whose \<^verbatim>\<open>str\<close> the source stores.
\<close>

datatype batch_item =
    Success (application_id: nat) (result: Response)
  | Error (application_id: nat) (error: http_exception)

fun status :: "batch_item \<Rightarrow> string" where
  "status (Success i r) = ''success''"
| "status (Error i e) = ''error''"

record Summary =
  total_applications :: nat
  successful_predictions :: nat
  errors :: nat
  high_risk_count :: nat

record BatchResponse =
  summary :: Summary
  results :: "batch_item list"

text \<open>The body of the loop \<^verbatim>\<open>for i, app in enumerate(applications)\<close>.\<close>

definition score_item :: "Globals \<Rightarrow> nat \<times> LoanApplication \<Rightarrow> batch_item" where
  "score_item g = (\<lambda>(i, app).
     case predict g app of
       Inr r \<Rightarrow> Success (i + 1) r
     | Inl e \<Rightarrow> Error (i + 1) e)"

text \<open>
  \<^verbatim>\<open>batch_predict(applications)\<close>. Inside its outer \<^verbatim>\<open>try\<close> nothing raises, since
  the loop catches every exception of \<^verbatim>\<open>predict\<close>; the outer handler has no branch
  here.
\<close>

definition batch_predict :: "Globals \<Rightarrow> LoanApplication list \<Rightarrow> http_exception + BatchResponse" where
  "batch_predict g applications =
     (case model g of
        None \<Rightarrow> Inl (HTTPException 500 Model_not_loaded)
      | Some m \<Rightarrow>
         if length applications > 100 then Inl (HTTPException 400 Maximum_100_applications)
         else
           (let results' = map (score_item g) (enumerate 0 applications);
                summary' =
                  \<lparr>total_applications = length applications,
                   successful_predictions =
                     length (filter (\<lambda>r. status r = ''success'') results'),
                   errors = length (filter (\<lambda>r. status r = ''error'') results'),
                   high_risk_count =
                     length (filter (\<lambda>r. status r = ''success'' \<and>
                        risk_level (result r) \<in> set [''High'', ''Very High'']) results')\<rparr>
            in Inr \<lparr>summary = summary', results = results'\<rparr>))"

subsection \<open>Test data\<close>

text \<open>
  The two profiles and the third batch entry of \<^verbatim>\<open>test_enhanced_api.py\<close>, and
  stand-ins for the loaded model: one that answers every frame with the same
  probability and label, one that raises on every frame, and one that, like the input
  validation of a scikit-learn pipeline, raises on a frame with a non-finite ratio.
\<close>

definition low_risk_app :: LoanApplication where
  "low_risk_app = \<lparr>age = 35, annual_income = 80000, employment_length = 8,
     home_ownership = ''OWN'', purpose = ''home_improvement'', loan_amount = 20000,
     term_months = 36, interest_rate = 8.5, dti = 15.2, credit_score = 780,
     delinquency_2yrs = 0, num_open_acc = 4\<rparr>"

definition high_risk_app :: LoanApplication where
  "high_risk_app = \<lparr>age = 22, annual_income = 25000, employment_length = 1,
     home_ownership = ''RENT'', purpose = ''debt_consolidation'', loan_amount = 15000,
     term_months = 60, interest_rate = 18.5, dti = 45.0, credit_score = 580,
     delinquency_2yrs = 3, num_open_acc = 12\<rparr>"

definition third_app :: LoanApplication where
  "third_app = \<lparr>age = 30, annual_income = 50000, employment_length = 5,
     home_ownership = ''MORTGAGE'', purpose = ''credit_card'', loan_amount = 12000,
     term_months = 36, interest_rate = 12.0, dti = 25.0, credit_score = 680,
     delinquency_2yrs = 1, num_open_acc = 8\<rparr>"

definition constant_model :: "real \<Rightarrow> int \<Rightarrow> Model" where
  "constant_model p b = \<lparr>predict_proba = (\<lambda>df. Inr p), model_predict = (\<lambda>df. Inr b)\<rparr>"

definition raising_model :: Model where
  "raising_model =
     \<lparr>predict_proba = (\<lambda>df. Inl (Model_exception ''unavailable'')),
      model_predict = (\<lambda>df. Inl (Model_exception ''unavailable''))\<rparr>"

definition all_finite :: "Engineered list \<Rightarrow> bool" where
  "all_finite df =
     list_all (\<lambda>e. income_to_loan_ratio e \<noteq> NonFinite \<and> monthly_payment e \<noteq> NonFinite \<and>
                    payment_to_income_ratio e \<noteq> NonFinite) df"

definition validating_model :: "real \<Rightarrow> int \<Rightarrow> Model" where
  "validating_model p b =
     \<lparr>predict_proba =
        (\<lambda>df. if all_finite df then Inr p else Inl (Model_exception ''Input contains infinity'')),
      model_predict =
        (\<lambda>df. if all_finite df then Inr b else Inl (Model_exception ''Input contains infinity''))\<rparr>"

text \<open>The globals after a startup that loaded the model \<open>m\<close>, and after one that did not.\<close>

definition loaded :: "Model \<Rightarrow> Globals" where
  "loaded m = \<lparr>model = Some m, model_info = [''best_score'' \<mapsto> JNumber 0.9464]\<rparr>"

definition not_loaded :: Globals where
  "not_loaded = \<lparr>model = None, model_info = Map.empty\<rparr>"

section \<open>Properties\<close>

subsection \<open>The columns of an engineered row\<close>

lemmas row_defs = engineer_row_def Let_def LoanApplication.defs Engineered.defs

lemma risk_score_row:
  "risk_score (engineer_row a b r) =
     employment_risk (engineer_row a b r) + high_interest (engineer_row a b r) +
     young_borrower (engineer_row a b r) + multiple_delinquencies (engineer_row a b r) +
     many_open_accounts (engineer_row a b r)"
  by (simp add: row_defs)

lemma high_interest_row:
  "high_interest (engineer_row a b r) = astype_int (gt_median (interest_rate r) a)"
  by (simp add: row_defs)

lemma many_open_accounts_row:
  "many_open_accounts (engineer_row a b r) = astype_int (gt_median (of_int (num_open_acc r)) b)"
  by (simp add: row_defs)

lemma employment_risk_row:
  "employment_risk (engineer_row a b r) = astype_int (employment_length r < 2)"
  by (simp add: row_defs)

lemma young_borrower_row:
  "young_borrower (engineer_row a b r) = astype_int (age r < 30)"
  by (simp add: row_defs)

lemma multiple_delinquencies_row:
  "multiple_delinquencies (engineer_row a b r) = astype_int (delinquency_2yrs r > 1)"
  by (simp add: row_defs)

lemma income_to_loan_ratio_row:
  "income_to_loan_ratio (engineer_row a b r) =
     (if loan_amount r = 0 then NonFinite
      else float64_result (annual_income r / loan_amount r))"
  by (simp add: row_defs)

lemma monthly_payment_row:
  "monthly_payment (engineer_row a b r) =
     (if term_months r = 0 then NonFinite
      else float64_result (loan_amount r / of_int (term_months r)))"
  by (simp add: row_defs)

lemma payment_to_income_ratio_row:
  "payment_to_income_ratio (engineer_row a b r) =
     truediv (monthly_payment (engineer_row a b r)) (truediv_const (annual_income r) 12)"
  by (simp add: row_defs)

lemma credit_score_binned_row:
  "credit_score_binned (engineer_row a b r) =
     pd_cut (credit_score r) [0, 580, 670, 740, 850] [''Poor'', ''Fair'', ''Good'', ''Excellent'']"
  by (simp add: row_defs)

lemmas row_simps = risk_score_row high_interest_row many_open_accounts_row
  employment_risk_row young_borrower_row multiple_delinquencies_row
  income_to_loan_ratio_row monthly_payment_row payment_to_income_ratio_row
  credit_score_binned_row

lemma median_single: "median [x] = Some x"
  by (simp add: median_def)

lemma add_feature_engineering_single:
  "add_feature_engineering [r] =
     [engineer_row (Some (interest_rate r)) (Some (of_int (num_open_acc r))) r]"
  by (simp add: add_feature_engineering_def median_single)

lemma pd_cut_bands:
  "pd_cut x [0, 580, 670, 740, 850] [''Poor'', ''Fair'', ''Good'', ''Excellent''] =
     (if x < 0 then None
      else if x \<le> 580 then Some ''Poor''
      else if x \<le> 670 then Some ''Fair''
      else if x \<le> 740 then Some ''Good''
      else if x \<le> 850 then Some ''Excellent''
      else None)"
  by (simp add: pd_cut_def searchsorted_left_def Let_def)

subsection \<open>What a returned response says about the run of \<open>predict\<close>\<close>

lemma predict_Inr:
  assumes "predict g a = Inr res"
  obtains m p b where
    "model g = Some m"
    "predict_proba m (add_feature_engineering [a]) = Inr p"
    "model_predict m (add_feature_engineering [a]) = Inr b"
    "risk_level res = fst (risk_classification p)"
    "decision res = fst (recommendation_logic b p)"
    "confidence res = snd (recommendation_logic b p)"
    "fa_risk_score res = risk_score (add_feature_engineering [a] ! 0)"
    "rf_high_interest (risk_factors res) = (high_interest (add_feature_engineering [a] ! 0) \<noteq> 0)"
    "rf_many_open_accounts (risk_factors res) =
       (many_open_accounts (add_feature_engineering [a] ! 0) \<noteq> 0)"
  using assms
  by (auto simp: predict_def Let_def split: option.splits sum.splits prod.splits if_splits)

text \<open>The response exists as soon as the model answers and the score formats.\<close>

lemma predict_returns:
  assumes "model g = Some m"
    and "predict_proba m (add_feature_engineering [a]) = Inr p"
    and "model_predict m (add_feature_engineering [a]) = Inr b"
    and "formats_3f (dict_get (model_info g) ''best_score'' (JNumber 0.946))"
  shows "\<exists>res. predict g a = Inr res"
  using assms by (simp add: predict_def Let_def split: prod.splits)

subsection \<open>The stand-in models\<close>

lemma model_loaded: "model (loaded m) = Some m"
  by (simp add: loaded_def)

lemma predict_constant:
  "predict (loaded (constant_model p b)) a =
     Inr \<lparr>binary_prediction = b,
          prediction_label = (if b = 1 then ''Default'' else ''No Default''),
          risk_level = fst (risk_classification p),
          risk_color = snd (risk_classification p),
          confidence = snd (recommendation_logic b p),
          decision = fst (recommendation_logic b p),
          fa_risk_score = risk_score (add_feature_engineering [a] ! 0),
          credit_score_category =
            str_category (credit_score_binned (add_feature_engineering [a] ! 0)),
          risk_factors =
            \<lparr>rf_employment_risk = (employment_risk (add_feature_engineering [a] ! 0) \<noteq> 0),
             rf_high_interest = (high_interest (add_feature_engineering [a] ! 0) \<noteq> 0),
             rf_young_borrower = (young_borrower (add_feature_engineering [a] ! 0) \<noteq> 0),
             rf_multiple_delinquencies =
               (multiple_delinquencies (add_feature_engineering [a] ! 0) \<noteq> 0),
             rf_many_open_accounts =
               (many_open_accounts (add_feature_engineering [a] ! 0) \<noteq> 0)\<rparr>\<rparr>"
  by (simp add: predict_def loaded_def constant_model_def dict_get_def Let_def split: prod.splits)

lemma predict_constant_Inr:
  "predict (loaded (constant_model p b)) a = Inr (projr (predict (loaded (constant_model p b)) a))"
  by (simp add: predict_constant)

lemma float64_result_moderate:
  assumes "1 / 10 ^ 6 \<le> \<bar>q\<bar>" and "\<bar>q\<bar> \<le> 10 ^ 9"
  shows "float64_result q = Finite q"
proof -
  have "(10::real) ^ 9 < overflow_bound"
    by (simp add: overflow_bound_def)
  moreover have "underflow_bound < 1 / (10::real) ^ 6"
    by (simp add: underflow_bound_def)
  ultimately have "\<not> overflow_bound \<le> \<bar>q\<bar>" and "\<not> \<bar>q\<bar> \<le> underflow_bound"
    using assms by linarith+
  then show ?thesis
    by (simp add: float64_result_def)
qed

lemma truediv_const_moderate:
  assumes "1 / 10 ^ 6 \<le> \<bar>x / c\<bar>"
  shows "truediv_const x c = x / c"
proof -
  have "underflow_bound < 1 / (10::real) ^ 6"
    by (simp add: underflow_bound_def)
  with assms have "\<not> \<bar>x / c\<bar> \<le> underflow_bound"
    by linarith
  then show ?thesis
    unfolding truediv_const_def by (rule if_not_P)
qed

lemma predict_validating_error:
  assumes "\<not> all_finite (add_feature_engineering [a])"
  shows "predict (loaded (validating_model p b)) a =
     Inl (HTTPException 400 (Prediction_error (Model_exception ''Input contains infinity'')))"
  using assms by (simp add: predict_def loaded_def validating_model_def Let_def)

lemma predict_validating_success:
  assumes "all_finite (add_feature_engineering [a])"
  shows "predict (loaded (validating_model p b)) a = predict (loaded (constant_model p b)) a"
  using assms
  by (simp add: predict_def loaded_def validating_model_def constant_model_def Let_def)

lemma predict_raising:
  "predict (loaded raising_model) a =
     Inl (HTTPException 400 (Prediction_error (Model_exception ''unavailable'')))"
  by (simp add: predict_def loaded_def raising_model_def Let_def)

lemma fixtures_finite:
  "all_finite (add_feature_engineering [low_risk_app])"
  "all_finite (add_feature_engineering [high_risk_app])"
  "all_finite (add_feature_engineering [third_app])"
  "\<not> all_finite (add_feature_engineering [third_app\<lparr>loan_amount := 0\<rparr>])"
  by (simp_all add: all_finite_def add_feature_engineering_single row_simps
      float64_result_moderate truediv_const_moderate
      low_risk_app_def high_risk_app_def third_app_def)

subsection \<open>The batch loop\<close>

lemma status_cases: "status r = ''success'' \<longleftrightarrow> status r \<noteq> ''error''"
  by (cases r) simp_all

lemma status_score_item:
  "status (score_item g (i, a)) = (if isl (predict g a) then ''error'' else ''success'')"
  by (simp add: score_item_def split: sum.splits)

lemma batch_predict_Inr:
  assumes "batch_predict g applications = Inr res"
  shows "results res = map (score_item g) (enumerate 0 applications)"
    and "total_applications (summary res) = length applications"
    and "successful_predictions (summary res) =
           length (filter (\<lambda>r. status r = ''success'') (results res))"
    and "errors (summary res) = length (filter (\<lambda>r. status r = ''error'') (results res))"
    and "high_risk_count (summary res) =
           length (filter (\<lambda>r. status r = ''success'' \<and>
                     risk_level (result r) \<in> set [''High'', ''Very High'']) (results res))"
  using assms
  by (auto simp: batch_predict_def Let_def split: option.splits if_splits)

lemma batch_predict_returns:
  assumes "model g = Some m" and "length applications \<le> 100"
  shows "\<exists>res. batch_predict g applications = Inr res"
  using assms by (simp add: batch_predict_def Let_def)

lemma count_status_success:
  "length (filter (\<lambda>r. status r = ''success'') (map (score_item g) (enumerate n xs))) =
   length (filter (\<lambda>a. \<not> isl (predict g a)) xs)"
proof (induction xs arbitrary: n)
  case Nil
  then show ?case by simp
next
  case (Cons a xs)
  then show ?case by (simp add: enumerate_simps status_score_item)
qed

section \<open>The claims\<close>

subsection \<open>C5: risk tier thresholds\<close>

text \<open>
  C5. Whenever \<open>predict\<close> returns a response for a probability \<open>p\<close> that the model
  gave, the risk level is fixed by \<open>p\<close> alone, with closed lower bounds: \<open>p \<ge> 0.8\<close> is
  Very High, \<open>0.6 \<le> p < 0.8\<close> is High, \<open>0.4 \<le> p < 0.6\<close> is Medium,
  \<open>0.2 \<le> p < 0.4\<close> is Low and \<open>p < 0.2\<close> is Very Low. The theorem holds for every
  real \<open>p\<close>, so for every \<open>p\<close> in \<open>[0, 1]\<close>.
\<close>

theorem risk_level_thresholds:
  assumes "model g = Some m"
    and "predict_proba m (add_feature_engineering [a]) = Inr p"
    and "predict g a = Inr res"
  shows "(0.8 \<le> p \<longrightarrow> risk_level res = ''Very High'') \<and>
         (0.6 \<le> p \<and> p < 0.8 \<longrightarrow> risk_level res = ''High'') \<and>
         (0.4 \<le> p \<and> p < 0.6 \<longrightarrow> risk_level res = ''Medium'') \<and>
         (0.2 \<le> p \<and> p < 0.4 \<longrightarrow> risk_level res = ''Low'') \<and>
         (p < 0.2 \<longrightarrow> risk_level res = ''Very Low'')"
proof -
  from assms(3) obtain m' p' where
    "model g = Some m'" "predict_proba m' (add_feature_engineering [a]) = Inr p'"
    "risk_level res = fst (risk_classification p')"
    by (rule predict_Inr)
  with assms(1,2) have "risk_level res = fst (risk_classification p)" by simp
  then show ?thesis by (simp add: risk_classification_def)
qed

text \<open>
  The boundary values of the claim: 0.8 is Very High, 0.7999 is High, 0.4 is Medium,
  0.2 is Low and 0.0 is Very Low.
\<close>

theorem risk_level_thresholds_witness:
  "risk_level (projr (predict (loaded (constant_model 0.8 1)) low_risk_app)) = ''Very High'' \<and>
   risk_level (projr (predict (loaded (constant_model 0.7999 1)) low_risk_app)) = ''High'' \<and>
   risk_level (projr (predict (loaded (constant_model 0.4 0)) low_risk_app)) = ''Medium'' \<and>
   risk_level (projr (predict (loaded (constant_model 0.2 0)) low_risk_app)) = ''Low'' \<and>
   risk_level (projr (predict (loaded (constant_model 0.0 0)) low_risk_app)) = ''Very Low''"
proof -
  have pp: "predict_proba (constant_model p b) (add_feature_engineering [low_risk_app]) = Inr p"
    for p b by (simp add: constant_model_def)
  note inst = risk_level_thresholds [OF model_loaded pp predict_constant_Inr]
  show ?thesis
    using inst [of "0.8" 1] inst [of "0.7999" 1] inst [of "0.4" 0] inst [of "0.2" 0]
      inst [of 0 0]
    by simp
qed

subsection \<open>C6: recommendation and confidence\<close>

text \<open>
  C6. Whenever \<open>predict\<close> returns a response for the probability \<open>p\<close> and the label
  \<open>b\<close> that the model gave, the label comes before the tier: label 1 gives Reject,
  with confidence High when \<open>p > 0.7\<close> and Medium otherwise; label 0 gives Approve
  with confidence High when \<open>p < 0.1\<close>, Approve with monitoring with confidence
  Medium when \<open>0.1 \<le> p < 0.3\<close>, and Further review required with confidence Low
  when \<open>p \<ge> 0.3\<close>.
\<close>

theorem recommendation_by_label_then_probability:
  assumes "model g = Some m"
    and "predict_proba m (add_feature_engineering [a]) = Inr p"
    and "model_predict m (add_feature_engineering [a]) = Inr b"
    and "predict g a = Inr res"
  shows "(b = 1 \<longrightarrow> decision res = ''Reject'' \<and>
            confidence res = (if p > 0.7 then ''High'' else ''Medium'')) \<and>
         (b = 0 \<and> p < 0.1 \<longrightarrow> decision res = ''Approve'' \<and> confidence res = ''High'') \<and>
         (b = 0 \<and> 0.1 \<le> p \<and> p < 0.3 \<longrightarrow>
            decision res = ''Approve with monitoring'' \<and> confidence res = ''Medium'') \<and>
         (b = 0 \<and> 0.3 \<le> p \<longrightarrow>
            decision res = ''Further review required'' \<and> confidence res = ''Low'')"
proof -
  from assms(4) obtain m' p' b' where
    "model g = Some m'" "predict_proba m' (add_feature_engineering [a]) = Inr p'"
    "model_predict m' (add_feature_engineering [a]) = Inr b'"
    "decision res = fst (recommendation_logic b' p')"
    "confidence res = snd (recommendation_logic b' p')"
    by (rule predict_Inr)
  with assms(1-3) have "decision res = fst (recommendation_logic b p)"
    and "confidence res = snd (recommendation_logic b p)" by simp_all
  then show ?thesis by (simp add: recommendation_logic_def)
qed

text \<open>
  The example of the claim (probability 0.15 with label 1 is Reject with confidence
  Medium) and one input for each other branch.
\<close>

theorem recommendation_by_label_then_probability_witness:
  "decision (projr (predict (loaded (constant_model 0.15 1)) low_risk_app)) = ''Reject'' \<and>
   confidence (projr (predict (loaded (constant_model 0.15 1)) low_risk_app)) = ''Medium'' \<and>
   decision (projr (predict (loaded (constant_model 0.9 1)) low_risk_app)) = ''Reject'' \<and>
   confidence (projr (predict (loaded (constant_model 0.9 1)) low_risk_app)) = ''High'' \<and>
   decision (projr (predict (loaded (constant_model 0.05 0)) low_risk_app)) = ''Approve'' \<and>
   confidence (projr (predict (loaded (constant_model 0.05 0)) low_risk_app)) = ''High'' \<and>
   decision (projr (predict (loaded (constant_model 0.1 0)) low_risk_app)) =
     ''Approve with monitoring'' \<and>
   confidence (projr (predict (loaded (constant_model 0.1 0)) low_risk_app)) = ''Medium'' \<and>
   decision (projr (predict (loaded (constant_model 0.3 0)) low_risk_app)) =
     ''Further review required'' \<and>
   confidence (projr (predict (loaded (constant_model 0.3 0)) low_risk_app)) = ''Low''"
proof -
  have pp: "predict_proba (constant_model p b) (add_feature_engineering [low_risk_app]) = Inr p"
    for p b by (simp add: constant_model_def)
  have mp: "model_predict (constant_model p b) (add_feature_engineering [low_risk_app]) = Inr b"
    for p b by (simp add: constant_model_def)
  note inst = recommendation_by_label_then_probability [OF model_loaded pp mp predict_constant_Inr]
  show ?thesis
    using inst [of 1 "0.15"] inst [of 1 "0.9"] inst [of 0 "0.05"] inst [of 0 "0.1"]
      inst [of 0 "0.3"]
    by simp
qed

subsection \<open>C7: the risk score\<close>

text \<open>
  C7. In every row of every engineered frame, \<open>risk_score\<close> is the sum of the five
  columns \<open>employment_risk\<close>, \<open>high_interest\<close>, \<open>young_borrower\<close>,
  \<open>multiple_delinquencies\<close> and \<open>many_open_accounts\<close>, each of which is 0 or 1, so it
  lies between 0 and 5. Two rows (of any frames) that agree on these five columns have
  the same \<open>risk_score\<close>, whatever their \<open>experienced_worker\<close> and
  \<open>high_credit_score\<close> are.
\<close>

theorem risk_score_counts_five_factors:
  "\<forall>e \<in> set (add_feature_engineering df).
     risk_score e = employment_risk e + high_interest e + young_borrower e +
                    multiple_delinquencies e + many_open_accounts e \<and>
     employment_risk e \<in> {0, 1} \<and> high_interest e \<in> {0, 1} \<and> young_borrower e \<in> {0, 1} \<and>
     multiple_delinquencies e \<in> {0, 1} \<and> many_open_accounts e \<in> {0, 1} \<and>
     0 \<le> risk_score e \<and> risk_score e \<le> 5 \<and>
     (\<forall>e' \<in> set (add_feature_engineering df').
        employment_risk e' = employment_risk e \<and> high_interest e' = high_interest e \<and>
        young_borrower e' = young_borrower e \<and>
        multiple_delinquencies e' = multiple_delinquencies e \<and>
        many_open_accounts e' = many_open_accounts e \<longrightarrow> risk_score e' = risk_score e)"
  by (auto simp: add_feature_engineering_def row_simps astype_int_def)

text \<open>The first row of the frame of the two test profiles.\<close>

theorem risk_score_counts_five_factors_witness:
  "risk_score (add_feature_engineering [high_risk_app, low_risk_app] ! 0) =
     employment_risk (add_feature_engineering [high_risk_app, low_risk_app] ! 0) +
     high_interest (add_feature_engineering [high_risk_app, low_risk_app] ! 0) +
     young_borrower (add_feature_engineering [high_risk_app, low_risk_app] ! 0) +
     multiple_delinquencies (add_feature_engineering [high_risk_app, low_risk_app] ! 0) +
     many_open_accounts (add_feature_engineering [high_risk_app, low_risk_app] ! 0) \<and>
   0 \<le> risk_score (add_feature_engineering [high_risk_app, low_risk_app] ! 0) \<and>
   risk_score (add_feature_engineering [high_risk_app, low_risk_app] ! 0) \<le> 5"
proof -
  have mem: "add_feature_engineering [high_risk_app, low_risk_app] ! 0 \<in>
      set (add_feature_engineering [high_risk_app, low_risk_app])"
    by (simp add: add_feature_engineering_def)
  from risk_score_counts_five_factors [of "[high_risk_app, low_risk_app]" "[]", THEN bspec, OF mem]
  show ?thesis by blast
qed

subsection \<open>C1: where the medians come from\<close>

text \<open>
  C1, as the code has it. \<open>add_feature_engineering\<close> takes no reference statistics.
  On every call it computes the median of the \<open>interest_rate\<close> column and the median
  of the \<open>num_open_acc\<close> column of the frame it was given, and \<open>high_interest\<close> and
  \<open>many_open_accounts\<close> of each row compare the row's own value with these medians.
  \<open>predict\<close> passes the frame of the one request, whose medians are the request's own
  values, so there the engineered row is a function of the request alone.
\<close>

theorem medians_recomputed_from_frame:
  "map high_interest (add_feature_engineering df) =
     map (\<lambda>r. astype_int (gt_median (interest_rate r) (median (map interest_rate df)))) df \<and>
   map many_open_accounts (add_feature_engineering df) =
     map (\<lambda>r. astype_int (gt_median (of_int (num_open_acc r))
                  (median (map (\<lambda>q. of_int (num_open_acc q)) df)))) df \<and>
   add_feature_engineering [a] =
     [engineer_row (Some (interest_rate a)) (Some (of_int (num_open_acc a))) a]"
  by (simp add: add_feature_engineering_def row_simps median_single)

text \<open>
  The claim as stated fails: the same record gets \<open>high_interest = 0\<close> and
  \<open>many_open_accounts = 0\<close> in a frame of its own, and 1 for both in a frame that
  also holds the low-risk profile. Its features depend on the other rows of the frame.
\<close>

theorem same_record_other_frame_other_features:
  "high_interest (add_feature_engineering [high_risk_app] ! 0) = 0 \<and>
   high_interest (add_feature_engineering [high_risk_app, low_risk_app] ! 0) = 1 \<and>
   many_open_accounts (add_feature_engineering [high_risk_app] ! 0) = 0 \<and>
   many_open_accounts (add_feature_engineering [high_risk_app, low_risk_app] ! 0) = 1"
  by (simp add: add_feature_engineering_def median_def row_simps astype_int_def
      high_risk_app_def low_risk_app_def)

subsection \<open>C3: zero divisors\<close>

text \<open>
  C3, as the code has it. \<open>add_feature_engineering\<close> never fails: it returns one row
  for each row of its frame, for every input. A zero \<open>loan_amount\<close> or
  \<open>term_months\<close> raises nothing: \<open>income_to_loan_ratio\<close>, respectively
  \<open>monthly_payment\<close> and with it \<open>payment_to_income_ratio\<close>, is a non-finite value
  that stays in the frame. A nonzero divisor gives a finite value unless the quotient
  leaves the float64 range: \<open>income_to_loan_ratio\<close> is non-finite exactly when
  \<open>loan_amount\<close> is zero or \<open>annual_income / loan_amount\<close> has magnitude
  \<open>2^1024 - 2^970\<close> or more, and \<open>monthly_payment\<close> exactly when \<open>term_months\<close> is
  zero or \<open>loan_amount / term_months\<close> has such a magnitude.
\<close>

theorem zero_divisor_gives_non_finite:
  "length (add_feature_engineering df) = length df \<and>
   (\<forall>i < length df.
      (income_to_loan_ratio (add_feature_engineering df ! i) = NonFinite \<longleftrightarrow>
         loan_amount (df ! i) = 0 \<or>
         overflow_bound \<le> \<bar>annual_income (df ! i) / loan_amount (df ! i)\<bar>) \<and>
      (monthly_payment (add_feature_engineering df ! i) = NonFinite \<longleftrightarrow>
         term_months (df ! i) = 0 \<or>
         overflow_bound \<le> \<bar>loan_amount (df ! i) / of_int (term_months (df ! i))\<bar>) \<and>
      (term_months (df ! i) = 0 \<longrightarrow>
         payment_to_income_ratio (add_feature_engineering df ! i) = NonFinite))"
proof -
  have len: "length (add_feature_engineering df) = length df"
    by (simp add: add_feature_engineering_def)
  have nf: "float64_result q = NonFinite \<longleftrightarrow> overflow_bound \<le> \<bar>q\<bar>" for q
    by (simp add: float64_result_def)
  have row: "(income_to_loan_ratio (engineer_row a b r) = NonFinite \<longleftrightarrow>
         loan_amount r = 0 \<or> overflow_bound \<le> \<bar>annual_income r / loan_amount r\<bar>) \<and>
      (monthly_payment (engineer_row a b r) = NonFinite \<longleftrightarrow>
         term_months r = 0 \<or> overflow_bound \<le> \<bar>loan_amount r / of_int (term_months r)\<bar>) \<and>
      (term_months r = 0 \<longrightarrow> payment_to_income_ratio (engineer_row a b r) = NonFinite)"
    for a b r
    by (simp add: income_to_loan_ratio_row monthly_payment_row payment_to_income_ratio_row nf)
  have "add_feature_engineering df ! i =
      engineer_row (median (map interest_rate df))
        (median (map (\<lambda>r. of_int (num_open_acc r)) df)) (df ! i)"
    if "i < length df" for i
    using that by (simp add: add_feature_engineering_def)
  with len row show ?thesis by simp
qed

text \<open>
  A frame of four: a zero \<open>loan_amount\<close>, a zero \<open>term_months\<close>, the low-risk
  profile as it is, and an income of \<open>2^1023\<close> over a loan amount of \<open>2^-10\<close>,
  whose quotient overflows.
\<close>

theorem zero_divisor_gives_non_finite_witness:
  "length (add_feature_engineering
     [low_risk_app\<lparr>loan_amount := 0\<rparr>, low_risk_app\<lparr>term_months := 0\<rparr>, low_risk_app,
      low_risk_app\<lparr>annual_income := 2 ^ 1023, loan_amount := 1 / 2 ^ 10\<rparr>]) = 4 \<and>
   income_to_loan_ratio (add_feature_engineering
     [low_risk_app\<lparr>loan_amount := 0\<rparr>, low_risk_app\<lparr>term_months := 0\<rparr>, low_risk_app,
      low_risk_app\<lparr>annual_income := 2 ^ 1023, loan_amount := 1 / 2 ^ 10\<rparr>] ! 0) = NonFinite \<and>
   monthly_payment (add_feature_engineering
     [low_risk_app\<lparr>loan_amount := 0\<rparr>, low_risk_app\<lparr>term_months := 0\<rparr>, low_risk_app,
      low_risk_app\<lparr>annual_income := 2 ^ 1023, loan_amount := 1 / 2 ^ 10\<rparr>] ! 1) = NonFinite \<and>
   payment_to_income_ratio (add_feature_engineering
     [low_risk_app\<lparr>loan_amount := 0\<rparr>, low_risk_app\<lparr>term_months := 0\<rparr>, low_risk_app,
      low_risk_app\<lparr>annual_income := 2 ^ 1023, loan_amount := 1 / 2 ^ 10\<rparr>] ! 1) = NonFinite \<and>
   income_to_loan_ratio (add_feature_engineering
     [low_risk_app\<lparr>loan_amount := 0\<rparr>, low_risk_app\<lparr>term_months := 0\<rparr>, low_risk_app,
      low_risk_app\<lparr>annual_income := 2 ^ 1023, loan_amount := 1 / 2 ^ 10\<rparr>] ! 2) \<noteq> NonFinite \<and>
   monthly_payment (add_feature_engineering
     [low_risk_app\<lparr>loan_amount := 0\<rparr>, low_risk_app\<lparr>term_months := 0\<rparr>, low_risk_app,
      low_risk_app\<lparr>annual_income := 2 ^ 1023, loan_amount := 1 / 2 ^ 10\<rparr>] ! 2) \<noteq> NonFinite \<and>
   income_to_loan_ratio (add_feature_engineering
     [low_risk_app\<lparr>loan_amount := 0\<rparr>, low_risk_app\<lparr>term_months := 0\<rparr>, low_risk_app,
      low_risk_app\<lparr>annual_income := 2 ^ 1023, loan_amount := 1 / 2 ^ 10\<rparr>] ! 3) = NonFinite"
proof -
  let ?df = "[low_risk_app\<lparr>loan_amount := 0\<rparr>, low_risk_app\<lparr>term_months := 0\<rparr>, low_risk_app,
      low_risk_app\<lparr>annual_income := 2 ^ 1023, loan_amount := 1 / 2 ^ 10\<rparr>]"
  note inst = zero_divisor_gives_non_finite [of ?df]
  from inst have len: "length (add_feature_engineering ?df) = 4"
    by simp
  from inst have nth: "\<And>i. i < 4 \<Longrightarrow>
      (income_to_loan_ratio (add_feature_engineering ?df ! i) = NonFinite \<longleftrightarrow>
         loan_amount (?df ! i) = 0 \<or>
         overflow_bound \<le> \<bar>annual_income (?df ! i) / loan_amount (?df ! i)\<bar>) \<and>
      (monthly_payment (add_feature_engineering ?df ! i) = NonFinite \<longleftrightarrow>
         term_months (?df ! i) = 0 \<or>
         overflow_bound \<le> \<bar>loan_amount (?df ! i) / of_int (term_months (?df ! i))\<bar>) \<and>
      (term_months (?df ! i) = 0 \<longrightarrow>
         payment_to_income_ratio (add_feature_engineering ?df ! i) = NonFinite)"
    by simp
  have i0: "income_to_loan_ratio (add_feature_engineering ?df ! 0) = NonFinite"
    using nth [of 0] by simp
  have i1: "monthly_payment (add_feature_engineering ?df ! 1) = NonFinite \<and>
      payment_to_income_ratio (add_feature_engineering ?df ! 1) = NonFinite"
    using nth [of 1] by simp
  have i2: "income_to_loan_ratio (add_feature_engineering ?df ! 2) \<noteq> NonFinite \<and>
      monthly_payment (add_feature_engineering ?df ! 2) \<noteq> NonFinite"
    using nth [of 2] by (simp add: low_risk_app_def overflow_bound_def)
  have i3: "income_to_loan_ratio (add_feature_engineering ?df ! 3) = NonFinite"
    using nth [of 3] by (simp add: overflow_bound_def)
  from len i0 i1 i2 i3 show ?thesis by blast
qed

text \<open>
  The claim as stated fails: with \<open>loan_amount = 0\<close>, and with \<open>term_months = 0\<close>,
  feature engineering returns a row that holds a non-finite value, and \<open>predict\<close>
  hands the frame to the model; with a model that answers it, the request is scored.
\<close>

theorem zero_loan_amount_is_not_rejected:
  "map income_to_loan_ratio (add_feature_engineering [low_risk_app\<lparr>loan_amount := 0\<rparr>]) =
     [NonFinite] \<and>
   map monthly_payment (add_feature_engineering [low_risk_app\<lparr>term_months := 0\<rparr>]) =
     [NonFinite] \<and>
   \<not> isl (predict (loaded (constant_model 0.05 0)) (low_risk_app\<lparr>loan_amount := 0\<rparr>))"
  by (simp add: add_feature_engineering_def row_simps low_risk_app_def predict_constant)

subsection \<open>C8: credit score bands\<close>

text \<open>
  C8, as the code has it. In every row, \<open>credit_score_binned\<close> is Poor on \<open>[0, 580]\<close>
  (left edge included), Fair on \<open>(580, 670]\<close>, Good on \<open>(670, 740]\<close> and Excellent on
  \<open>(740, 850]\<close>. A score below 0 or above 850 gets no band: the column holds the
  missing value there.
\<close>

theorem credit_score_bands:
  "map credit_score_binned (add_feature_engineering df) =
     map (\<lambda>r. let x = credit_score r in
               if 0 \<le> x \<and> x \<le> 580 then Some ''Poor''
               else if 580 < x \<and> x \<le> 670 then Some ''Fair''
               else if 670 < x \<and> x \<le> 740 then Some ''Good''
               else if 740 < x \<and> x \<le> 850 then Some ''Excellent''
               else None) df"
  by (simp add: add_feature_engineering_def row_simps pd_cut_bands Let_def)

text \<open>
  The claim as stated fails: the scores 900 and -1 fall into no bin, neither Excellent
  nor Poor.
\<close>

theorem credit_score_out_of_range_unassigned:
  "map credit_score_binned (add_feature_engineering [low_risk_app\<lparr>credit_score := 900\<rparr>]) =
     [None] \<and>
   map credit_score_binned (add_feature_engineering [low_risk_app\<lparr>credit_score := -1\<rparr>]) =
     [None]"
  by (simp add: add_feature_engineering_def row_simps pd_cut_bands low_risk_app_def)

subsection \<open>C10: the one-row frame of the serving path\<close>

text \<open>
  C10. For the frame of one request, as \<open>predict\<close> builds it, \<open>high_interest\<close> and
  \<open>many_open_accounts\<close> are 0 and \<open>risk_score\<close> is at most 3, whatever the request
  holds; so every response of \<open>predict\<close> reports both risk factors as false and a
  risk score of at most 3.
\<close>

theorem single_request_median_features_off:
  "high_interest (add_feature_engineering [a] ! 0) = 0 \<and>
   many_open_accounts (add_feature_engineering [a] ! 0) = 0 \<and>
   risk_score (add_feature_engineering [a] ! 0) \<le> 3 \<and>
   (\<forall>res. predict g a = Inr res \<longrightarrow>
      \<not> rf_high_interest (risk_factors res) \<and> \<not> rf_many_open_accounts (risk_factors res) \<and>
      fa_risk_score res \<le> 3)"
proof -
  have row: "high_interest (add_feature_engineering [a] ! 0) = 0 \<and>
      many_open_accounts (add_feature_engineering [a] ! 0) = 0 \<and>
      risk_score (add_feature_engineering [a] ! 0) \<le> 3"
    by (simp add: add_feature_engineering_single row_simps astype_int_def)
  moreover have "\<not> rf_high_interest (risk_factors res) \<and>
      \<not> rf_many_open_accounts (risk_factors res) \<and> fa_risk_score res \<le> 3"
    if "predict g a = Inr res" for res
    using that row by (elim predict_Inr) simp
  ultimately show ?thesis by blast
qed

text \<open>
  The high-risk profile, with an interest rate of 18.5 and 12 open accounts: both risk
  factors are false in the response and the risk score is at most 3.
\<close>

theorem single_request_median_features_off_witness:
  "\<not> rf_high_interest
       (risk_factors (projr (predict (loaded (constant_model 0.9 1)) high_risk_app))) \<and>
   \<not> rf_many_open_accounts
       (risk_factors (projr (predict (loaded (constant_model 0.9 1)) high_risk_app))) \<and>
   fa_risk_score (projr (predict (loaded (constant_model 0.9 1)) high_risk_app)) \<le> 3"
  using single_request_median_features_off [of high_risk_app "loaded (constant_model 0.9 1)"]
    predict_constant_Inr [of "0.9" 1 high_risk_app]
  by blast

subsection \<open>C2: one outcome per position\<close>

text \<open>
  C2, as the code has it. With a model loaded, a batch of at most 100 applications
  returns one entry for each input position, in input order. The entry at position
  \<open>i\<close> (counted from 0) is the outcome of \<open>predict\<close> on element \<open>i\<close>: its response,
  or the exception it raised, captured. Either way the entry carries
  \<open>application_id = i + 1\<close>, the position counted from 1. The failure of one element
  changes no other entry.
\<close>

theorem batch_one_outcome_per_position:
  assumes "model g = Some m" and "length applications \<le> 100"
  shows "\<exists>res. batch_predict g applications = Inr res \<and>
           length (results res) = length applications \<and>
           (\<forall>i < length applications.
              results res ! i =
                (case predict g (applications ! i) of
                   Inr r \<Rightarrow> Success (i + 1) r
                 | Inl e \<Rightarrow> Error (i + 1) e))"
proof -
  from assms obtain res where res: "batch_predict g applications = Inr res"
    using batch_predict_returns by blast
  have r: "results res = map (score_item g) (enumerate 0 applications)"
    by (rule batch_predict_Inr(1) [OF res])
  have "results res ! i =
      (case predict g (applications ! i) of Inr r \<Rightarrow> Success (i + 1) r | Inl e \<Rightarrow> Error (i + 1) e)"
    if "i < length applications" for i
    using that by (simp add: r nth_enumerate_eq score_item_def)
  with res r show ?thesis by simp
qed

text \<open>
  A batch of four with a zero \<open>loan_amount\<close> at position 2 and a model that refuses
  non-finite input: four entries, three of them successes, and the error at position 2
  with \<open>application_id = 3\<close>.
\<close>

theorem batch_one_outcome_per_position_witness:
  "\<exists>res. batch_predict (loaded (validating_model 0.05 0))
            [low_risk_app, high_risk_app, third_app\<lparr>loan_amount := 0\<rparr>, third_app] = Inr res \<and>
     length (results res) = 4 \<and>
     status (results res ! 0) = ''success'' \<and> application_id (results res ! 0) = 1 \<and>
     status (results res ! 1) = ''success'' \<and> application_id (results res ! 1) = 2 \<and>
     results res ! 2 =
       Error 3 (HTTPException 400 (Prediction_error (Model_exception ''Input contains infinity''))) \<and>
     status (results res ! 3) = ''success'' \<and> application_id (results res ! 3) = 4"
proof -
  let ?g = "loaded (validating_model 0.05 0)"
  let ?apps = "[low_risk_app, high_risk_app, third_app\<lparr>loan_amount := 0\<rparr>, third_app]"
  have l: "length ?apps \<le> 100" by simp
  from batch_one_outcome_per_position [OF model_loaded l] obtain res where
    res: "batch_predict ?g ?apps = Inr res" "length (results res) = length ?apps"
    and nth: "\<And>i. i < length ?apps \<Longrightarrow> results res ! i =
        (case predict ?g (?apps ! i) of Inr r \<Rightarrow> Success (i + 1) r | Inl e \<Rightarrow> Error (i + 1) e)"
    by blast
  have i0: "status (results res ! 0) = ''success'' \<and> application_id (results res ! 0) = 1"
    using nth [of 0] by (simp add: predict_validating_success fixtures_finite predict_constant)
  have i1: "status (results res ! 1) = ''success'' \<and> application_id (results res ! 1) = 2"
    using nth [of 1] by (simp add: predict_validating_success fixtures_finite predict_constant)
  have i2: "results res ! 2 =
      Error 3 (HTTPException 400 (Prediction_error (Model_exception ''Input contains infinity'')))"
    using nth [of 2] by (simp add: predict_validating_error fixtures_finite)
  have i3: "status (results res ! 3) = ''success'' \<and> application_id (results res ! 3) = 4"
    using nth [of 3] by (simp add: predict_validating_success fixtures_finite predict_constant)
  from res i0 i1 i2 i3 show ?thesis by simp
qed

text \<open>
  The claim as stated fails on the tag: the element at index 0 fails and its entry
  carries \<open>application_id = 1\<close>, not its index 0.
\<close>

theorem failed_first_item_tagged_one:
  "batch_predict (loaded raising_model) [low_risk_app] =
     Inr \<lparr>summary = \<lparr>total_applications = 1, successful_predictions = 0, errors = 1,
                     high_risk_count = 0\<rparr>,
          results = [Error 1 (HTTPException 400
                       (Prediction_error (Model_exception ''unavailable'')))]\<rparr> \<and>
   application_id (results (projr (batch_predict (loaded raising_model) [low_risk_app])) ! 0) \<noteq> 0"
  using predict_raising [of low_risk_app] model_loaded [of raising_model]
  by (simp add: batch_predict_def Let_def enumerate_simps score_item_def)

subsection \<open>C4: the size limit\<close>

text \<open>
  C4, as the code has it. The check of the model comes first: with no model loaded,
  \<open>batch_predict\<close> fails with status 500 whatever the length of the batch. With a
  model loaded, every batch of more than 100 applications fails with status 400,
  "Maximum 100 applications per batch", whatever the model and the applications are,
  and returns no entry. A batch of at most 100 never fails with this error.
\<close>

theorem batch_size_limit:
  "(model g = None \<longrightarrow>
      batch_predict g applications = Inl (HTTPException 500 Model_not_loaded)) \<and>
   (model g = Some m \<and> length applications > 100 \<longrightarrow>
      batch_predict g applications = Inl (HTTPException 400 Maximum_100_applications)) \<and>
   (length applications \<le> 100 \<longrightarrow>
      batch_predict g applications \<noteq> Inl (HTTPException 400 Maximum_100_applications))"
  by (simp add: batch_predict_def Let_def split: option.splits)

text \<open>Batches of 101 and of 100 entries with a model loaded, and one of 101 without.\<close>

theorem batch_size_limit_witness:
  "batch_predict (loaded raising_model) (replicate 101 low_risk_app) =
     Inl (HTTPException 400 Maximum_100_applications) \<and>
   batch_predict (loaded raising_model) (replicate 100 low_risk_app) \<noteq>
     Inl (HTTPException 400 Maximum_100_applications) \<and>
   batch_predict not_loaded (replicate 200 low_risk_app) =
     Inl (HTTPException 500 Model_not_loaded)"
  using batch_size_limit [of "loaded raising_model" "replicate 101 low_risk_app" raising_model]
    batch_size_limit [of "loaded raising_model" "replicate 100 low_risk_app" raising_model]
    batch_size_limit [of not_loaded "replicate 200 low_risk_app" raising_model]
  by (simp add: loaded_def not_loaded_def)

text \<open>
  The claim as stated fails: a batch of 101 applications sent while no model is loaded
  fails with "Model not loaded on server" (status 500), not with the size error.
\<close>

theorem oversized_batch_without_model:
  "batch_predict not_loaded (replicate 101 low_risk_app) =
     Inl (HTTPException 500 Model_not_loaded) \<and>
   batch_predict not_loaded (replicate 101 low_risk_app) \<noteq>
     Inl (HTTPException 400 Maximum_100_applications)"
  by (simp add: batch_predict_def not_loaded_def)

subsection \<open>C9: the summary\<close>

text \<open>
  C9. In every batch result, \<open>total_applications\<close> is the length of the input,
  \<open>successful_predictions\<close> is the number of success entries, \<open>errors\<close> is the number
  of error entries, the two add up to the total, and \<open>high_risk_count\<close> is the number
  of success entries whose risk level is High or Very High. There is one entry for
  each input, and the successes are the inputs on which \<open>predict\<close> returned.
\<close>

theorem summary_counts_outcomes:
  assumes "batch_predict g applications = Inr res"
  shows "total_applications (summary res) = length applications \<and>
         length (results res) = length applications \<and>
         successful_predictions (summary res) =
           length (filter (\<lambda>r. status r = ''success'') (results res)) \<and>
         errors (summary res) = length (filter (\<lambda>r. status r = ''error'') (results res)) \<and>
         successful_predictions (summary res) + errors (summary res) =
           total_applications (summary res) \<and>
         high_risk_count (summary res) =
           length (filter (\<lambda>r. status r = ''success'' \<and>
                     (risk_level (result r) = ''High'' \<or> risk_level (result r) = ''Very High''))
                   (results res)) \<and>
         successful_predictions (summary res) =
           length (filter (\<lambda>a. \<not> isl (predict g a)) applications)"
proof -
  note b = batch_predict_Inr [OF assms]
  have len: "length (results res) = length applications"
    by (simp add: b(1))
  have "length (filter (\<lambda>r. status r = ''success'') (results res)) +
        length (filter (\<lambda>r. status r = ''error'') (results res)) = length (results res)"
    using sum_length_filter_compl [of "\<lambda>r. status r = ''success''" "results res"]
    by (simp add: status_cases)
  then have sum: "successful_predictions (summary res) + errors (summary res) =
      total_applications (summary res)"
    by (simp add: b(2-4) len)
  have hr: "high_risk_count (summary res) =
      length (filter (\<lambda>r. status r = ''success'' \<and>
                (risk_level (result r) = ''High'' \<or> risk_level (result r) = ''Very High''))
              (results res))"
    by (simp add: b(5))
  have succ: "successful_predictions (summary res) =
      length (filter (\<lambda>a. \<not> isl (predict g a)) applications)"
    by (simp only: b(3) b(1) count_status_success)
  from b(2) len b(3) b(4) sum hr succ show ?thesis by blast
qed

text \<open>
  A batch of three, the third with a zero \<open>loan_amount\<close>, and a model that refuses
  non-finite input and answers 0.65 otherwise: total 3, two successes, one error, two
  high-risk entries.
\<close>

theorem summary_counts_outcomes_witness:
  "total_applications (summary (projr (batch_predict (loaded (validating_model 0.65 1))
      [low_risk_app, high_risk_app, third_app\<lparr>loan_amount := 0\<rparr>]))) = 3 \<and>
   successful_predictions (summary (projr (batch_predict (loaded (validating_model 0.65 1))
      [low_risk_app, high_risk_app, third_app\<lparr>loan_amount := 0\<rparr>]))) = 2 \<and>
   errors (summary (projr (batch_predict (loaded (validating_model 0.65 1))
      [low_risk_app, high_risk_app, third_app\<lparr>loan_amount := 0\<rparr>]))) = 1 \<and>
   high_risk_count (summary (projr (batch_predict (loaded (validating_model 0.65 1))
      [low_risk_app, high_risk_app, third_app\<lparr>loan_amount := 0\<rparr>]))) = 2"
proof -
  let ?g = "loaded (validating_model 0.65 1)"
  let ?apps = "[low_risk_app, high_risk_app, third_app\<lparr>loan_amount := 0\<rparr>]"
  let ?res = "projr (batch_predict ?g ?apps)"
  have e: "batch_predict ?g ?apps = Inr ?res"
    by (simp add: batch_predict_def loaded_def Let_def)
  have r: "results ?res = map (score_item ?g) (enumerate 0 ?apps)"
    by (rule batch_predict_Inr(1) [OF e])
  have p: "\<not> isl (predict ?g low_risk_app)" "\<not> isl (predict ?g high_risk_app)"
    "isl (predict ?g (third_app\<lparr>loan_amount := 0\<rparr>))"
    by (simp_all add: predict_validating_success predict_validating_error fixtures_finite
        predict_constant)
  have rs: "results ?res =
      [Success 1 (projr (predict ?g low_risk_app)), Success 2 (projr (predict ?g high_risk_app)),
       Error 3 (projl (predict ?g (third_app\<lparr>loan_amount := 0\<rparr>)))]"
    unfolding r
    by (simp add: enumerate_simps score_item_def predict_validating_success
        predict_validating_error fixtures_finite predict_constant)
  have lv: "risk_level (projr (predict ?g low_risk_app)) = ''High''"
    "risk_level (projr (predict ?g high_risk_app)) = ''High''"
    by (simp_all add: predict_validating_success fixtures_finite predict_constant
        risk_classification_def)
  from rs p lv summary_counts_outcomes [OF e] show ?thesis
    by simp
qed

end
